theory Spec2Isabelle
  imports Main
begin

section \<open>The HTTP context wrapper of transport/http/context.go\<close>

text \<open>
  The wrapper of \<^verbatim>\<open>context.go\<close> holds three pointers: the route (and through it the
  server with its decoder and encoder), the request and the response writer. A Go pointer
  or interface value that may be nil is an \<open>option\<close>; reading through a nil one panics,
  and a panic is the \<open>Inl\<close> branch of every operation's result. Methods that mutate what
  a pointer refers to return the wrapper with the new contents.

  A value of Go's \<^verbatim>\<open>interface{}\<close> (payloads, binding targets, context keys and values)
  is a value of the type variable \<open>'a\<close>; nil is \<open>None\<close> where the source tests for it.
  A byte slice and a Go string are both a \<open>string\<close>, one \<open>char\<close> per byte.

  \<^verbatim>\<open>Middleware\<close>, which wraps a handler in the server's middleware chain, touches
  neither the request nor the response and is not part of the model.
\<close>

subsection \<open>Errors and panics\<close>

datatype error =
    EOF
  | ErrShortWrite
  | ErrInvalidWrite
  | Canceled
  | ErrBodyNotAllowed
  | Failure string

text \<open>
  A panic is a nil pointer read by the wrapper or by a library it calls, or the refusal
  of a status code by the response writer (\<^verbatim>\<open>invalid WriteHeader code\<close> in \<^verbatim>\<open>net/http\<close>).
\<close>

datatype panic = NilPointerDereference | InvalidWriteHeaderCode int

subsection \<open>Requests\<close>

text \<open>\<^verbatim>\<open>url.Values\<close> and \<^verbatim>\<open>http.Header\<close> are both \<^verbatim>\<open>map[string][]string\<close>.\<close>

type_synonym Values = "string \<rightharpoonup> string list"

type_synonym Time = int

type_synonym chan = nat

text \<open>The zero \<^verbatim>\<open>time.Time{}\<close>.\<close>

definition zero_Time :: Time where
  "zero_Time = 0"

text \<open>
  A \<^verbatim>\<open>context.Context\<close> is an interface of four methods; the record holds what each
  of them answers at the moment the wrapper asks.
\<close>

record 'a ctx =
  ctx_Deadline :: "Time \<times> bool"
  ctx_Done :: "chan option"
  ctx_Err :: "error option"
  ctx_Value :: "'a \<Rightarrow> 'a option"

record URL =
  RawQuery :: string

text \<open>
  The fields of \<^verbatim>\<open>http.Request\<close> that the wrapper reads: \<^verbatim>\<open>Header\<close>, \<^verbatim>\<open>URL\<close>,
  \<^verbatim>\<open>Form\<close> and the unexported \<^verbatim>\<open>ctx\<close>; the body is what \<^verbatim>\<open>ParseForm\<close> consumes.
\<close>

record 'a request =
  req_Header :: Values
  req_URL :: "URL option"
  req_Form :: Values
  req_Body :: string
  req_ctx :: "'a ctx option"

text \<open>\<^verbatim>\<open>context.Background()\<close>: never cancelled, no deadline, no values.\<close>

definition Background :: "'a ctx" where
  "Background =
     \<lparr>ctx_Deadline = (zero_Time, False), ctx_Done = None, ctx_Err = None,
      ctx_Value = (\<lambda>_. None)\<rparr>"

text \<open>\<^verbatim>\<open>(*http.Request).Context\<close>: the request's context, the background one if unset.\<close>

definition Context :: "'a request \<Rightarrow> 'a ctx" where
  "Context r = (case req_ctx r of Some x \<Rightarrow> x | None \<Rightarrow> Background)"

subsection \<open>The libraries the wrapper calls\<close>

text \<open>
  The router, the form parser, the binders and the two marshallers are not part of
  \<^verbatim>\<open>context.go\<close>; the model takes them as parameters.
  \<^item> \<open>mux_Vars r\<close>: the entries of the map \<^verbatim>\<open>mux.Vars(r)\<close>, in the order in which
    the \<^verbatim>\<open>range\<close> loop of \<^verbatim>\<open>Vars\<close> visits them (no entry for a nil map);
  \<^item> \<open>ParseForm r\<close>: the error of \<^verbatim>\<open>r.ParseForm()\<close> and the request it leaves;
  \<^item> \<open>ParseQuery s\<close>: what \<^verbatim>\<open>(*url.URL).Query\<close> makes of the raw query \<open>s\<close>;
  \<^item> \<open>binding_BindQuery\<close>, \<open>binding_BindForm\<close>: the binders, returning their
    error and the target they filled;
  \<^item> \<open>json_Marshal\<close>: the bytes of a value, or the error;
  \<^item> \<open>xml_Marshal\<close>: the XML encoder works through a buffer, so its output reaches
    the writer in pieces, some of them before the marshaller is done: the pieces the
    buffer passes on, in order, and the marshaller's error; after an error these are the
    pieces passed on before it.
  Each of these that takes a request reads it at once, so handing it a nil request
  panics; the model raises that panic where the wrapper makes the call.
\<close>

record 'a library =
  mux_Vars :: "'a request \<Rightarrow> (string \<times> string) list"
  ParseForm :: "'a request \<Rightarrow> error option \<times> 'a request"
  ParseQuery :: "string \<Rightarrow> Values"
  binding_BindQuery :: "Values \<Rightarrow> 'a \<Rightarrow> error option \<times> 'a"
  binding_BindForm :: "'a request \<Rightarrow> 'a \<Rightarrow> (error option \<times> 'a) \<times> 'a request"
  json_Marshal :: "'a \<Rightarrow> error + string"
  xml_Marshal :: "'a \<Rightarrow> string list \<times> error option"

subsection \<open>Response writers\<close>

text \<open>
  \<^verbatim>\<open>http.ResponseWriter\<close> is an interface; \<open>'w\<close> is the state of the value behind it
  and the record is its method table. \<open>Header_Set k v\<close> is \<^verbatim>\<open>Header().Set(k, v)\<close>,
  \<open>Write\<close> answers the number of bytes written and the error. \<open>WriteHeader\<close> may
  refuse its status code with a panic, which the caller does not recover; the other two
  methods are taken to return.
\<close>

record 'w ResponseWriter =
  Header_Set :: "string \<Rightarrow> string \<Rightarrow> 'w \<Rightarrow> 'w"
  WriteHeader :: "int \<Rightarrow> 'w \<Rightarrow> panic + 'w"
  Write :: "string \<Rightarrow> 'w \<Rightarrow> (int \<times> error option) \<times> 'w"

subsection \<open>Server, route, wrapper\<close>

text \<open>
  The server's decoder and encoder are configured functions; they receive the request
  and response pointers as they are (nil included) and may change what these refer to.
\<close>

record ('a, 'w) Server =
  dec :: "'a request option \<Rightarrow> 'a \<Rightarrow> (error option \<times> 'a) \<times> 'a request option"
  enc :: "'w option \<Rightarrow> 'a request option \<Rightarrow> 'a \<Rightarrow> error option \<times> 'w option \<times> 'a request option"

record ('a, 'w) Route =
  srv :: "('a, 'w) Server option"

record ('a, 'w) wrapper =
  route :: "('a, 'w) Route option"
  req :: "'a request option"
  res :: "'w option"

text \<open>\<^verbatim>\<open>c.route.srv\<close>: two pointers to read through.\<close>

definition route_srv :: "('a, 'w) wrapper \<Rightarrow> panic + ('a, 'w) Server" where
  "route_srv c =
     (case route c of
        None \<Rightarrow> Inl NilPointerDereference
      | Some rt \<Rightarrow>
          (case srv rt of
             None \<Rightarrow> Inl NilPointerDereference
           | Some s \<Rightarrow> Inr s))"

subsection \<open>Accessors\<close>

definition Header :: "('a, 'w) wrapper \<Rightarrow> panic + Values" where
  "Header c =
     (case req c of
        None \<Rightarrow> Inl NilPointerDereference
      | Some r \<Rightarrow> Inr (req_Header r))"

text \<open>The loop \<^verbatim>\<open>for k, v := range raws { vars[k] = []string{v} }\<close>.\<close>

fun Vars_range :: "(string \<times> string) list \<Rightarrow> Values \<Rightarrow> Values" where
  "Vars_range [] vars = vars"
| "Vars_range ((k, v) # raws) vars = Vars_range raws (vars(k \<mapsto> [v]))"

definition Vars :: "'a library \<Rightarrow> ('a, 'w) wrapper \<Rightarrow> panic + Values" where
  "Vars L c =
     (case req c of
        None \<Rightarrow> Inl NilPointerDereference
      | Some r \<Rightarrow> Inr (Vars_range (mux_Vars L r) Map.empty))"

definition Form :: "'a library \<Rightarrow> ('a, 'w) wrapper \<Rightarrow> panic + (Values \<times> ('a, 'w) wrapper)" where
  "Form L c =
     (case req c of
        None \<Rightarrow> Inl NilPointerDereference
      | Some r \<Rightarrow>
          (case ParseForm L r of
             (Some err, r') \<Rightarrow> Inr (Map.empty, c\<lparr>req := Some r'\<rparr>)
           | (None, r') \<Rightarrow> Inr (req_Form r', c\<lparr>req := Some r'\<rparr>)))"

definition Query :: "'a library \<Rightarrow> ('a, 'w) wrapper \<Rightarrow> panic + Values" where
  "Query L c =
     (case req c of
        None \<Rightarrow> Inl NilPointerDereference
      | Some r \<Rightarrow>
          (case req_URL r of
             None \<Rightarrow> Inl NilPointerDereference
           | Some u \<Rightarrow> Inr (ParseQuery L (RawQuery u))))"

definition Request :: "('a, 'w) wrapper \<Rightarrow> 'a request option" where
  "Request c = req c"

definition Response :: "('a, 'w) wrapper \<Rightarrow> 'w option" where
  "Response c = res c"

definition Reset :: "('a, 'w) wrapper \<Rightarrow> 'w option \<Rightarrow> 'a request option \<Rightarrow> ('a, 'w) wrapper" where
  "Reset c res' req' = c\<lparr>res := res', req := req'\<rparr>"

subsection \<open>Binding\<close>

definition Bind ::
  "('a, 'w) wrapper \<Rightarrow> 'a \<Rightarrow> panic + ((error option \<times> 'a) \<times> ('a, 'w) wrapper)" where
  "Bind c v =
     (case route_srv c of
        Inl p \<Rightarrow> Inl p
      | Inr s \<Rightarrow>
          (case dec s (req c) v of
             (out, req') \<Rightarrow> Inr (out, c\<lparr>req := req'\<rparr>)))"

definition BindVars :: "'a library \<Rightarrow> ('a, 'w) wrapper \<Rightarrow> 'a \<Rightarrow> panic + (error option \<times> 'a)" where
  "BindVars L c v =
     (case Vars L c of
        Inl p \<Rightarrow> Inl p
      | Inr vars \<Rightarrow> Inr (binding_BindQuery L vars v))"

definition BindQuery :: "'a library \<Rightarrow> ('a, 'w) wrapper \<Rightarrow> 'a \<Rightarrow> panic + (error option \<times> 'a)" where
  "BindQuery L c v =
     (case Query L c of
        Inl p \<Rightarrow> Inl p
      | Inr q \<Rightarrow> Inr (binding_BindQuery L q v))"

definition BindForm ::
  "'a library \<Rightarrow> ('a, 'w) wrapper \<Rightarrow> 'a \<Rightarrow> panic + ((error option \<times> 'a) \<times> ('a, 'w) wrapper)" where
  "BindForm L c v =
     (case req c of
        None \<Rightarrow> Inl NilPointerDereference
      | Some r \<Rightarrow>
          (case binding_BindForm L r v of
             (out, r') \<Rightarrow> Inr (out, c\<lparr>req := Some r'\<rparr>)))"

subsection \<open>Responding\<close>

definition Returns ::
  "('a, 'w) wrapper \<Rightarrow> 'a \<Rightarrow> error option \<Rightarrow> panic + (error option \<times> ('a, 'w) wrapper)" where
  "Returns c v err =
     (case err of
        Some e \<Rightarrow> Inr (Some e, c)
      | None \<Rightarrow>
          (case route_srv c of
             Inl p \<Rightarrow> Inl p
           | Inr s \<Rightarrow>
               (case enc s (res c) (req c) v of
                  (Some e, res', req') \<Rightarrow> Inr (Some e, c\<lparr>res := res', req := req'\<rparr>)
                | (None, res', req') \<Rightarrow> Inr (None, c\<lparr>res := res', req := req'\<rparr>))))"

definition Result ::
  "'w ResponseWriter \<Rightarrow> ('a, 'w) wrapper \<Rightarrow> int \<Rightarrow> 'a \<Rightarrow>
     panic + (error option \<times> ('a, 'w) wrapper)" where
  "Result W c code v =
     (case res c of
        None \<Rightarrow> Inl NilPointerDereference
      | Some w \<Rightarrow>
          (case WriteHeader W code w of
             Inl p \<Rightarrow> Inl p
           | Inr w1 \<Rightarrow>
               (case route_srv c of
                  Inl p \<Rightarrow> Inl p
                | Inr s \<Rightarrow>
                    (case enc s (Some w1) (req c) v of
                       (Some e, res', req') \<Rightarrow> Inr (Some e, c\<lparr>res := res', req := req'\<rparr>)
                     | (None, res', req') \<Rightarrow> Inr (None, c\<lparr>res := res', req := req'\<rparr>)))))"

text \<open>
  \<^verbatim>\<open>NewEncoder(w).Encode(v)\<close> of \<^verbatim>\<open>encoding/json\<close>: marshal, then write the bytes to
  \<open>w\<close> in one call whose count is dropped; the error is the marshaller's or the
  writer's. The encoder ends its output with a newline.
\<close>

definition Encode ::
  "'w ResponseWriter \<Rightarrow> ('a \<Rightarrow> error + string) \<Rightarrow> 'a \<Rightarrow> 'w \<Rightarrow> error option \<times> 'w" where
  "Encode W marshal v w =
     (case marshal v of
        Inl e \<Rightarrow> (Some e, w)
      | Inr b \<Rightarrow> (case Write W b w of ((n, ew), w') \<Rightarrow> (ew, w')))"

definition json_line :: "'a library \<Rightarrow> 'a \<Rightarrow> error + string" where
  "json_line L v = (case json_Marshal L v of Inl e \<Rightarrow> Inl e | Inr b \<Rightarrow> Inr (b @ [CHR 0x0A]))"

text \<open>
  \<^verbatim>\<open>NewEncoder(w).Encode(v)\<close> of \<^verbatim>\<open>encoding/xml\<close>. Each piece that leaves the buffer is
  one \<^verbatim>\<open>Write\<close>; a write that takes fewer bytes than it was given, without an error of
  its own, is \<^verbatim>\<open>ErrShortWrite\<close>; after a failed write nothing more is written. The
  pieces passed on before a marshalling error are on the wire when that error is
  returned. The marshaller's error comes first, then the writer's.
\<close>

fun flush_chunks :: "'w ResponseWriter \<Rightarrow> string list \<Rightarrow> 'w \<Rightarrow> error option \<times> 'w" where
  "flush_chunks W [] w = (None, w)"
| "flush_chunks W (b # bs) w =
     (if b = [] then flush_chunks W bs w
      else case Write W b w of
             ((n, ew), w') \<Rightarrow>
               (case (if n < int (length b) \<and> ew = None then Some ErrShortWrite else ew) of
                  Some e \<Rightarrow> (Some e, w')
                | None \<Rightarrow> flush_chunks W bs w'))"

definition xml_Encode :: "'w ResponseWriter \<Rightarrow> 'a library \<Rightarrow> 'a \<Rightarrow> 'w \<Rightarrow> error option \<times> 'w" where
  "xml_Encode W L v w =
     (case xml_Marshal L v of
        (chunks, em) \<Rightarrow>
          (case flush_chunks W chunks w of
             (ew, w') \<Rightarrow> (case em of Some e \<Rightarrow> (Some e, w') | None \<Rightarrow> (ew, w'))))"

definition JSON ::
  "'w ResponseWriter \<Rightarrow> 'a library \<Rightarrow> ('a, 'w) wrapper \<Rightarrow> int \<Rightarrow> 'a \<Rightarrow>
     panic + (error option \<times> ('a, 'w) wrapper)" where
  "JSON W L c code v =
     (case res c of
        None \<Rightarrow> Inl NilPointerDereference
      | Some w \<Rightarrow>
          (case WriteHeader W code w of
             Inl p \<Rightarrow> Inl p
           | Inr w1 \<Rightarrow>
               (let w2 = Header_Set W ''Content-Type'' ''application/json'' w1
                in case Encode W (json_line L) v w2 of
                     (err, w3) \<Rightarrow> Inr (err, c\<lparr>res := Some w3\<rparr>))))"

definition XML ::
  "'w ResponseWriter \<Rightarrow> 'a library \<Rightarrow> ('a, 'w) wrapper \<Rightarrow> int \<Rightarrow> 'a \<Rightarrow>
     panic + (error option \<times> ('a, 'w) wrapper)" where
  "XML W L c code v =
     (case res c of
        None \<Rightarrow> Inl NilPointerDereference
      | Some w \<Rightarrow>
          (case WriteHeader W code w of
             Inl p \<Rightarrow> Inl p
           | Inr w1 \<Rightarrow>
               (let w2 = Header_Set W ''Content-Type'' ''application/xml'' w1
                in case xml_Encode W L v w2 of
                     (err, w3) \<Rightarrow> Inr (err, c\<lparr>res := Some w3\<rparr>))))"

definition String ::
  "'w ResponseWriter \<Rightarrow> ('a, 'w) wrapper \<Rightarrow> int \<Rightarrow> string \<Rightarrow>
     panic + (error option \<times> ('a, 'w) wrapper)" where
  "String W c code text =
     (case res c of
        None \<Rightarrow> Inl NilPointerDereference
      | Some w \<Rightarrow>
          (case WriteHeader W code w of
             Inl p \<Rightarrow> Inl p
           | Inr w1 \<Rightarrow>
               (let w2 = Header_Set W ''Content-Type'' ''text/plain'' w1
                in case Write W text w2 of
                     (_, w3) \<Rightarrow> Inr (None, c\<lparr>res := Some w3\<rparr>))))"

definition Blob ::
  "'w ResponseWriter \<Rightarrow> ('a, 'w) wrapper \<Rightarrow> int \<Rightarrow> string \<Rightarrow> string \<Rightarrow>
     panic + (error option \<times> ('a, 'w) wrapper)" where
  "Blob W c code contentType data =
     (case res c of
        None \<Rightarrow> Inl NilPointerDereference
      | Some w \<Rightarrow>
          (case WriteHeader W code w of
             Inl p \<Rightarrow> Inl p
           | Inr w1 \<Rightarrow>
               (let w2 = Header_Set W ''Content-Type'' contentType w1
                in case Write W data w2 of
                     (_, w3) \<Rightarrow> Inr (None, c\<lparr>res := Some w3\<rparr>))))"

subsection \<open>The request's cancellation context\<close>

definition Deadline :: "('a, 'w) wrapper \<Rightarrow> Time \<times> bool" where
  "Deadline c =
     (case req c of
        None \<Rightarrow> (zero_Time, False)
      | Some r \<Rightarrow> ctx_Deadline (Context r))"

definition Done :: "('a, 'w) wrapper \<Rightarrow> chan option" where
  "Done c =
     (case req c of
        None \<Rightarrow> None
      | Some r \<Rightarrow> ctx_Done (Context r))"

definition Err :: "('a, 'w) wrapper \<Rightarrow> error option" where
  "Err c =
     (case req c of
        None \<Rightarrow> Some Canceled
      | Some r \<Rightarrow> ctx_Err (Context r))"

definition Value :: "('a, 'w) wrapper \<Rightarrow> 'a \<Rightarrow> 'a option" where
  "Value c key =
     (case req c of
        None \<Rightarrow> None
      | Some r \<Rightarrow> ctx_Value (Context r) key)"

subsection \<open>Streaming: the loop of \<^verbatim>\<open>io.Copy\<close>\<close>

text \<open>
  An \<^verbatim>\<open>io.Reader\<close> is its \<^verbatim>\<open>Read\<close> method over a state \<open>'r\<close>: one call answers the
  bytes read, the error and the state it leaves.
\<close>

type_synonym 'r Reader = "'r \<Rightarrow> (string \<times> error option) \<times> 'r"

text \<open>
  One \<^verbatim>\<open>dst.Write(buf[0:nr])\<close> of the copy loop with the two checks that follow it:
  an impossible count makes \<^verbatim>\<open>errInvalidWrite\<close>, a short count without an error
  makes \<^verbatim>\<open>ErrShortWrite\<close>.
\<close>

definition write_chunk :: "'w ResponseWriter \<Rightarrow> string \<Rightarrow> 'w \<Rightarrow> error option \<times> 'w" where
  "write_chunk W b w =
     (case Write W b w of
        ((nw, ew), w') \<Rightarrow>
          (let invalid = (nw < 0 \<or> int (length b) < nw);
               ew1 = (if invalid \<and> ew = None then Some ErrInvalidWrite else ew);
               nw1 = (if invalid then 0 else nw)
           in case ew1 of
                Some e \<Rightarrow> (Some e, w')
              | None \<Rightarrow>
                  if int (length b) \<noteq> nw1 then (Some ErrShortWrite, w') else (None, w')))"

text \<open>
  The loop itself: read, write what was read, stop at the first write error, then stop
  at the reader's error, which is returned unless it is \<^verbatim>\<open>EOF\<close>. It runs for as long
  as the reader goes on without an error, so it is a partial function: \<open>None\<close> is a copy
  that does not return. The byte count, which \<^verbatim>\<open>Stream\<close> drops, is left out.
\<close>

partial_function (option) copyBuffer ::
  "'w ResponseWriter \<Rightarrow> 'r Reader \<Rightarrow> 'w \<Rightarrow> 'r \<Rightarrow> (error option \<times> 'w \<times> 'r) option" where
  "copyBuffer W Read w r =
     (case Read r of
        ((b, er), r') \<Rightarrow>
          (case (if 0 < length b then write_chunk W b w else (None, w)) of
             (Some e, w') \<Rightarrow> Some (Some e, w', r')
           | (None, w') \<Rightarrow>
               (case er of
                  Some e \<Rightarrow> Some (if e \<noteq> EOF then Some e else None, w', r')
                | None \<Rightarrow> copyBuffer W Read w' r')))"

declare copyBuffer.simps [code]

definition Stream ::
  "'w ResponseWriter \<Rightarrow> ('a, 'w) wrapper \<Rightarrow> int \<Rightarrow> string \<Rightarrow> 'r Reader \<Rightarrow> 'r \<Rightarrow>
     (panic + (error option \<times> ('a, 'w) wrapper)) option" where
  "Stream W c code contentType Read rd =
     (case res c of
        None \<Rightarrow> Some (Inl NilPointerDereference)
      | Some w \<Rightarrow>
          (case WriteHeader W code w of
             Inl p \<Rightarrow> Some (Inl p)
           | Inr w1 \<Rightarrow>
               (let w2 = Header_Set W ''Content-Type'' contentType w1
                in case copyBuffer W Read w2 rd of
                     None \<Rightarrow> None
                   | Some (err, w3, rd') \<Rightarrow> Some (Inr (err, c\<lparr>res := Some w3\<rparr>)))))"

text \<open>
  Two notions to state what a copy does. \<open>reads_as Read rd xs\<close>: the next calls of
  \<open>Read\<close>, starting from \<open>rd\<close>, answer the results \<open>xs\<close> in this order.
  \<open>writes_all W bs w\<close>: the chunks \<open>bs\<close> written in order (an empty chunk is not
  written), each in full and without an error; the writer's state afterwards.
\<close>

fun reads_as :: "'r Reader \<Rightarrow> 'r \<Rightarrow> (string \<times> error option) list \<Rightarrow> bool" where
  "reads_as Read rd [] = True"
| "reads_as Read rd (x # xs) = (fst (Read rd) = x \<and> reads_as Read (snd (Read rd)) xs)"


section \<open>The response writer of \<^verbatim>\<open>net/http\<close>\<close>

text \<open>
  The writer a handler gets from Go's HTTP server, as far as its documented contract
  goes. \<^verbatim>\<open>WriteHeader\<close> sends the status line together with the header map as it is
  at that moment; later changes of the map have no effect on the response (they do
  after an informational 1xx status, which leaves the final header pending). A second
  \<^verbatim>\<open>WriteHeader\<close> is ignored, whatever its code; otherwise a code below 100 or above 999
  panics before anything is sent. \<^verbatim>\<open>Write\<close> sends status 200 first if no status was sent, and
  refuses a body for a status that allows none. \<open>sentHeader\<close> is the header map given
  to the response; the server adds a sniffed \<^verbatim>\<open>Content-Type\<close> of its own when that map
  has none (never \<^verbatim>\<open>application/json\<close> or \<^verbatim>\<open>application/xml\<close>). Hijacking, declared
  content lengths and connection failures are left out.
\<close>

record response =
  handlerHeader :: Values
  wroteHeader :: bool
  status :: int
  sentHeader :: Values
  informational :: "(int \<times> Values) list"
  body :: string

definition response_Header_Set :: "string \<Rightarrow> string \<Rightarrow> response \<Rightarrow> response" where
  "response_Header_Set k v s = s\<lparr>handlerHeader := (handlerHeader s)(k \<mapsto> [v])\<rparr>"

text \<open>What \<^verbatim>\<open>WriteHeader\<close> sends once its code has passed the check.\<close>

definition response_sendHeader :: "int \<Rightarrow> response \<Rightarrow> response" where
  "response_sendHeader code s =
     (if 100 \<le> code \<and> code \<le> 199 \<and> code \<noteq> 101
        then s\<lparr>informational := informational s @ [(code, handlerHeader s)]\<rparr>
      else s\<lparr>wroteHeader := True, status := code, sentHeader := handlerHeader s\<rparr>)"

definition response_WriteHeader :: "int \<Rightarrow> response \<Rightarrow> panic + response" where
  "response_WriteHeader code s =
     (if wroteHeader s then Inr s
      else if code < 100 \<or> 999 < code then Inl (InvalidWriteHeaderCode code)
      else Inr (response_sendHeader code s))"

definition bodyAllowedForStatus :: "int \<Rightarrow> bool" where
  "bodyAllowedForStatus st =
     (if 100 \<le> st \<and> st \<le> 199 then False
      else if st = 204 then False
      else if st = 304 then False
      else True)"

text \<open>
  \<^verbatim>\<open>Write\<close> calls \<^verbatim>\<open>WriteHeader(StatusOK)\<close> when no status was written; 200 passes the
  check.
\<close>

definition response_Write :: "string \<Rightarrow> response \<Rightarrow> (int \<times> error option) \<times> response" where
  "response_Write data s =
     (let s1 = (if wroteHeader s then s else response_sendHeader 200 s)
      in if data = [] then ((0, None), s1)
         else if bodyAllowedForStatus (status s1)
           then ((int (length data), None), s1\<lparr>body := body s1 @ data\<rparr>)
         else ((0, Some ErrBodyNotAllowed), s1))"

definition http_response :: "response ResponseWriter" where
  "http_response =
     \<lparr>Header_Set = response_Header_Set, WriteHeader = response_WriteHeader,
      Write = response_Write\<rparr>"

definition new_response :: response where
  "new_response =
     \<lparr>handlerHeader = Map.empty, wroteHeader = False, status = 0, sentHeader = Map.empty,
      informational = [], body = []\<rparr>"

section \<open>Instances for evaluation\<close>

text \<open>
  Small collaborators on which the model can be run: a reader over a fixed sequence of
  read results (\<^verbatim>\<open>EOF\<close> after the last), a library whose form parser rejects a body
  with a percent sign and whose router captured \<^verbatim>\<open>id = 42\<close>, a server whose encoder
  writes the payload as it is, and a wrapper before and after \<^verbatim>\<open>Reset\<close>.
\<close>

definition list_Read :: "(string \<times> error option) list Reader" where
  "list_Read rd = (case rd of [] \<Rightarrow> (([], Some EOF), []) | x # xs \<Rightarrow> (x, xs))"

definition ex_library :: "string library" where
  "ex_library =
     \<lparr>mux_Vars = (\<lambda>r. [(''id'', ''42'')]),
      ParseForm = (\<lambda>r. if CHR ''%'' \<in> set (req_Body r)
                        then (Some (Failure ''invalid URL escape''), r\<lparr>req_Form := Map.empty\<rparr>)
                        else (None, r\<lparr>req_Form := [''q'' \<mapsto> [req_Body r]], req_Body := []\<rparr>)),
      ParseQuery = (\<lambda>s. [''q'' \<mapsto> [s]]),
      binding_BindQuery = (\<lambda>vs v. (None, v)),
      binding_BindForm = (\<lambda>r v. ((None, v), r)),
      json_Marshal = (\<lambda>v. Inr (''\"'' @ v @ ''\"'')),
      xml_Marshal = (\<lambda>v. ([''<string>'' @ v @ ''</string>''], None))\<rparr>"

definition ex_Server :: "(string, response) Server" where
  "ex_Server =
     \<lparr>dec = (\<lambda>rq v. ((None, v), rq)),
      enc = (\<lambda>rs rq v.
        case rs of
          None \<Rightarrow> (Some (Failure ''no response writer''), None, rq)
        | Some w \<Rightarrow> (case response_Write v w of ((n, ew), w') \<Rightarrow> (ew, Some w', rq)))\<rparr>"

definition ex_request :: "string \<Rightarrow> string request" where
  "ex_request b =
     \<lparr>req_Header = Map.empty, req_URL = Some \<lparr>RawQuery = ''a=1''\<rparr>, req_Form = Map.empty,
      req_Body = b,
      req_ctx = Some \<lparr>ctx_Deadline = (1700000000, True), ctx_Done = Some 7,
                      ctx_Err = None, ctx_Value = (\<lambda>k. if k = ''user'' then Some ''u1'' else None)\<rparr>\<rparr>"

definition ex_detached :: "(string, response) wrapper" where
  "ex_detached = \<lparr>route = Some \<lparr>srv = Some ex_Server\<rparr>, req = None, res = None\<rparr>"

definition ex_attached :: "string \<Rightarrow> (string, response) wrapper" where
  "ex_attached b = Reset ex_detached (Some new_response) (Some (ex_request b))"

text \<open>
  What a finished call left on the wire: the response writer after the call, and of a
  response of \<^verbatim>\<open>net/http\<close> the status sent with the \<^verbatim>\<open>Content-Type\<close> sent.
\<close>

definition response_of :: "panic + (error option \<times> ('a, 'w) wrapper) \<Rightarrow> 'w option" where
  "response_of x = (case x of Inl p \<Rightarrow> None | Inr (err, c) \<Rightarrow> res c)"

definition sent :: "response \<Rightarrow> int \<times> string list option" where
  "sent s = (status s, sentHeader s ''Content-Type'')"

section \<open>Properties\<close>

subsection \<open>The instances\<close>

lemma ex_attached_req: "req (ex_attached b) = Some (ex_request b)"
  by (simp add: ex_attached_def Reset_def)

lemma ex_attached_res: "res (ex_attached b) = Some new_response"
  by (simp add: ex_attached_def Reset_def)

lemma ex_attached_srv: "route_srv (ex_attached b) = Inr ex_Server"
  by (simp add: ex_attached_def Reset_def ex_detached_def route_srv_def)

text \<open>
  The writer of \<^verbatim>\<open>net/http\<close> accepts every code from 100 to 999, and any code at
  all once the status is written.
\<close>

lemma http_response_accepts:
  "wroteHeader s \<or> (100 \<le> code \<and> code \<le> 999) \<Longrightarrow>
   \<exists>s'. WriteHeader http_response code s = Inr s'"
  by (auto simp: http_response_def response_WriteHeader_def)

lemma http_response_200:
  "WriteHeader http_response 200 new_response
     = Inr (new_response\<lparr>wroteHeader := True, status := 200, sentHeader := Map.empty\<rparr>)"
  by (simp add: http_response_def response_WriteHeader_def response_sendHeader_def
      new_response_def)

subsection \<open>Form\<close>

text \<open>
  Claim C1. When parsing the form data of the attached request fails, \<open>Form\<close> answers
  the empty mapping, whatever the error is, and its result has no place for an error;
  when parsing succeeds, it answers the form mapping of the parsed request.
\<close>

theorem Form_swallows_parse_error:
  assumes "req c = Some r"
  shows "(ParseForm L r = (Some e, r') \<longrightarrow> Form L c = Inr (Map.empty, c\<lparr>req := Some r'\<rparr>))
       \<and> (ParseForm L r = (None, r') \<longrightarrow> Form L c = Inr (req_Form r', c\<lparr>req := Some r'\<rparr>))"
  using assms by (simp add: Form_def)

theorem Form_swallows_parse_error_witness:
  "Form ex_library (ex_attached ''a=%zz'')
     = Inr (Map.empty,
            (ex_attached ''a=%zz'')\<lparr>req := Some ((ex_request ''a=%zz'')\<lparr>req_Form := Map.empty\<rparr>)\<rparr>)
   \<and> Form ex_library (ex_attached ''kratos'')
     = Inr ([''q'' \<mapsto> [''kratos'']],
            (ex_attached ''kratos'')\<lparr>req :=
               Some ((ex_request ''kratos'')\<lparr>req_Form := [''q'' \<mapsto> [''kratos'']], req_Body := []\<rparr>)\<rparr>)"
proof -
  have bad: "ParseForm ex_library (ex_request ''a=%zz'')
      = (Some (Failure ''invalid URL escape''), (ex_request ''a=%zz'')\<lparr>req_Form := Map.empty\<rparr>)"
    by (simp add: ex_library_def ex_request_def)
  have good: "ParseForm ex_library (ex_request ''kratos'')
      = (None, (ex_request ''kratos'')\<lparr>req_Form := [''q'' \<mapsto> [''kratos'']], req_Body := []\<rparr>)"
    by (simp add: ex_library_def ex_request_def)
  from Form_swallows_parse_error [OF ex_attached_req, of ex_library "''a=%zz''"] bad
    Form_swallows_parse_error [OF ex_attached_req, of ex_library "''kratos''"] good
  show ?thesis by simp
qed

subsection \<open>Returns and Result\<close>

text \<open>
  Claim C2. \<open>Returns\<close> with a non-nil error answers that error and leaves the wrapper,
  its response included, as it was: the encoder is not reached, no route or server is
  even needed. With a nil error it runs the server's encoder on the response, the
  request and the value, and answers the encoder's error.
\<close>

theorem Returns_short_circuits:
  "Returns c v (Some e) = Inr (Some e, c)
   \<and> (route_srv c = Inr s \<and> enc s (res c) (req c) v = (err, res', req')
        \<longrightarrow> Returns c v None = Inr (err, c\<lparr>res := res', req := req'\<rparr>))"
  by (cases err) (simp_all add: Returns_def)

theorem Returns_short_circuits_witness:
  "Returns (ex_attached ''x'') ''hi'' (Some Canceled) = Inr (Some Canceled, ex_attached ''x'')
   \<and> Returns (ex_attached ''x'') ''hi'' None
       = Inr (None, (ex_attached ''x'')\<lparr>res := Some (new_response\<lparr>wroteHeader := True,
                status := 200, sentHeader := Map.empty, body := ''hi''\<rparr>),
              req := Some (ex_request ''x'')\<rparr>)"
proof -
  have "enc ex_Server (res (ex_attached ''x'')) (req (ex_attached ''x'')) ''hi''
      = (None, Some (new_response\<lparr>wroteHeader := True, status := 200,
                       sentHeader := Map.empty, body := ''hi''\<rparr>), Some (ex_request ''x''))"
    by (simp add: ex_attached_res ex_attached_req ex_Server_def response_Write_def
        response_sendHeader_def new_response_def bodyAllowedForStatus_def)
  with Returns_short_circuits [of "ex_attached ''x''" "''hi''" Canceled ex_Server None]
    ex_attached_srv [of "''x''"]
  show ?thesis by simp
qed

text \<open>
  Claim C8. \<open>Result\<close> with status 200 first writes the status 200 to the response and
  then runs the server's encoder on the response in the state \<open>w1\<close> that
  \<^verbatim>\<open>WriteHeader(200)\<close> left; what the encoder writes is the body, and the encoder's error
  (nil on success) is the result.
\<close>

theorem Result_status_then_encoder:
  assumes "res c = Some w" and "route_srv c = Inr s"
    and "WriteHeader W 200 w = Inr w1"
    and "enc s (Some w1) (req c) v = (err, res', req')"
  shows "Result W c 200 v = Inr (err, c\<lparr>res := res', req := req'\<rparr>)"
  using assms by (cases err) (simp_all add: Result_def)

theorem Result_status_then_encoder_witness:
  "Result http_response (ex_attached ''x'') 200 ''hello''
     = Inr (None, (ex_attached ''x'')\<lparr>res := Some (new_response\<lparr>wroteHeader := True,
              status := 200, sentHeader := Map.empty, body := ''hello''\<rparr>),
            req := Some (ex_request ''x'')\<rparr>)"
proof -
  have "enc ex_Server
          (Some (new_response\<lparr>wroteHeader := True, status := 200, sentHeader := Map.empty\<rparr>))
          (req (ex_attached ''x'')) ''hello''
      = (None, Some (new_response\<lparr>wroteHeader := True, status := 200,
                       sentHeader := Map.empty, body := ''hello''\<rparr>), Some (ex_request ''x''))"
    by (simp add: ex_attached_req ex_Server_def response_Write_def new_response_def
        bodyAllowedForStatus_def)
  from Result_status_then_encoder [OF ex_attached_res ex_attached_srv http_response_200 this]
  show ?thesis .
qed

subsection \<open>The cancellation context\<close>

text \<open>
  Claim C4. On a wrapper with no request, \<open>Deadline\<close> answers the zero time and false,
  \<open>Done\<close> no channel, \<open>Err\<close> the cancelled state and \<open>Value\<close> nothing for every key;
  with a request attached, each of the four answers what the request's context answers.
\<close>

theorem detached_context_answers:
  "Deadline (c\<lparr>req := None\<rparr>) = (zero_Time, False)
   \<and> Done (c\<lparr>req := None\<rparr>) = None
   \<and> Err (c\<lparr>req := None\<rparr>) = Some Canceled
   \<and> Value (c\<lparr>req := None\<rparr>) key = None
   \<and> Deadline (c\<lparr>req := Some r\<rparr>) = ctx_Deadline (Context r)
   \<and> Done (c\<lparr>req := Some r\<rparr>) = ctx_Done (Context r)
   \<and> Err (c\<lparr>req := Some r\<rparr>) = ctx_Err (Context r)
   \<and> Value (c\<lparr>req := Some r\<rparr>) key = ctx_Value (Context r) key"
  by (simp add: Deadline_def Done_def Err_def Value_def)

theorem detached_context_answers_witness:
  "Deadline (ex_detached\<lparr>req := None\<rparr>) = (0, False)
   \<and> Done (ex_detached\<lparr>req := None\<rparr>) = None
   \<and> Err (ex_detached\<lparr>req := None\<rparr>) = Some Canceled
   \<and> Value (ex_detached\<lparr>req := None\<rparr>) ''user'' = None
   \<and> Deadline (ex_detached\<lparr>req := Some (ex_request ''x'')\<rparr>) = (1700000000, True)
   \<and> Done (ex_detached\<lparr>req := Some (ex_request ''x'')\<rparr>) = Some 7
   \<and> Err (ex_detached\<lparr>req := Some (ex_request ''x'')\<rparr>) = None
   \<and> Value (ex_detached\<lparr>req := Some (ex_request ''x'')\<rparr>) ''user'' = Some ''u1''"
  using detached_context_answers [of ex_detached "''user''" "ex_request ''x''"]
  by (simp add: zero_Time_def Context_def ex_request_def)

subsection \<open>Route variables\<close>

lemma Vars_range_lookup:
  "distinct (map fst raws) \<Longrightarrow>
   Vars_range raws vars k = (case map_of raws k of Some v \<Rightarrow> Some [v] | None \<Rightarrow> vars k)"
proof (induction raws arbitrary: vars)
  case Nil
  show ?case by simp
next
  case (Cons kv raws)
  obtain k' v' where kv: "kv = (k', v')" by (cases kv)
  from Cons.prems kv have d: "distinct (map fst raws)" and notin: "k' \<notin> fst ` set raws"
    by simp_all
  show ?case
  proof (cases "k = k'")
    case True
    with notin have "map_of raws k = None"
      by (simp add: map_of_eq_None_iff)
    with True kv Cons.IH [OF d] show ?thesis by simp
  next
    case False
    with kv Cons.IH [OF d] show ?thesis by (simp split: option.split)
  qed
qed

text \<open>
  Claim C5. With a request attached, \<open>Vars\<close> answers a mapping in which every key the
  router captured has exactly the one-element list of its captured value, and no other
  key is present. The entries of the router's map have distinct keys, as the entries of
  a Go map do. For the route variables \<^verbatim>\<open>{"id": "42"}\<close> the key \<^verbatim>\<open>id\<close> has the single
  value \<^verbatim>\<open>42\<close>.
\<close>

theorem Vars_one_value_per_key:
  assumes "req c = Some r" and "distinct (map fst (mux_Vars L r))"
  shows "Vars L c
     = Inr (\<lambda>k. case map_of (mux_Vars L r) k of Some v \<Rightarrow> Some [v] | None \<Rightarrow> None)"
proof -
  from assms(2) have "Vars_range (mux_Vars L r) Map.empty
      = (\<lambda>k. case map_of (mux_Vars L r) k of Some v \<Rightarrow> Some [v] | None \<Rightarrow> None)"
    by (intro ext) (simp add: Vars_range_lookup)
  with assms(1) show ?thesis by (simp add: Vars_def)
qed

theorem Vars_one_value_per_key_witness:
  "mux_Vars ex_library (ex_request ''x'') = [(''id'', ''42'')]
   \<and> (case Vars ex_library (ex_attached ''x'') of
         Inl p \<Rightarrow> False
       | Inr vars \<Rightarrow> vars ''id'' = Some [''42''] \<and> vars ''name'' = None)"
proof -
  have raws: "mux_Vars ex_library (ex_request ''x'') = [(''id'', ''42'')]"
    by (simp add: ex_library_def)
  then have "distinct (map fst (mux_Vars ex_library (ex_request ''x'')))"
    by simp
  from Vars_one_value_per_key [OF ex_attached_req this] raws
  show ?thesis by simp
qed

subsection \<open>Streaming\<close>



lemma copyBuffer_write_error:
  assumes "Read r = ((b, er), r')" and "b \<noteq> []" and "write_chunk W b w = (Some e, w')"
  shows "copyBuffer W Read w r = Some (Some e, w', r')"
  using assms by (subst copyBuffer.simps) simp







subsection \<open>String and Blob\<close>

text \<open>
  Claim C10, as amended. For every status code that the response writer accepts, that
  is, for which \<^verbatim>\<open>WriteHeader\<close> returns and leaves the state \<open>w1\<close>, and for every text and
  data, \<open>String\<close> and \<open>Blob\<close> answer nil: the result of writing the body, its error
  included, is dropped. \<open>Stream\<close> does not do so: when the write of the first chunk
  fails, it answers the error of that write. The writer of \<^verbatim>\<open>net/http\<close> accepts the codes
  from 100 to 999, and every code once the status is written.
\<close>

theorem String_Blob_discard_write_error:
  assumes "res c = Some w" and "WriteHeader W code w = Inr w1"
  shows "String W c code str
           = Inr (None, c\<lparr>res := Some (snd (Write W str
                   (Header_Set W ''Content-Type'' ''text/plain'' w1)))\<rparr>)
       \<and> Blob W c code contentType data
           = Inr (None, c\<lparr>res := Some (snd (Write W data
                   (Header_Set W ''Content-Type'' contentType w1)))\<rparr>)
       \<and> (reads_as Read rd [(data, er)] \<and> data \<noteq> []
            \<and> write_chunk W data (Header_Set W ''Content-Type'' contentType w1) = (Some e, w')
          \<longrightarrow> Stream W c code contentType Read rd = Some (Inr (Some e, c\<lparr>res := Some w'\<rparr>)))
       \<and> (wroteHeader s \<or> (100 \<le> code' \<and> code' \<le> 999)
          \<longrightarrow> (\<exists>s'. WriteHeader http_response code' s = Inr s'))"
proof (intro conjI impI)
  show "String W c code str
           = Inr (None, c\<lparr>res := Some (snd (Write W str
                   (Header_Set W ''Content-Type'' ''text/plain'' w1)))\<rparr>)"
    using assms by (simp add: String_def split: prod.split)
  show "Blob W c code contentType data
           = Inr (None, c\<lparr>res := Some (snd (Write W data
                   (Header_Set W ''Content-Type'' contentType w1)))\<rparr>)"
    using assms by (simp add: Blob_def split: prod.split)
next
  assume a: "reads_as Read rd [(data, er)] \<and> data \<noteq> []
            \<and> write_chunk W data (Header_Set W ''Content-Type'' contentType w1) = (Some e, w')"
  then have "Read rd = ((data, er), snd (Read rd))"
    by (simp add: prod_eq_iff)
  with copyBuffer_write_error [of Read rd data er "snd (Read rd)" W _ e w'] a assms
  show "Stream W c code contentType Read rd = Some (Inr (Some e, c\<lparr>res := Some w'\<rparr>))"
    by (simp add: Stream_def)
next
  assume "wroteHeader s \<or> (100 \<le> code' \<and> code' \<le> 999)"
  then show "\<exists>s'. WriteHeader http_response code' s = Inr s'"
    by (rule http_response_accepts)
qed

theorem String_Blob_discard_write_error_witness:
  "WriteHeader http_response 204 new_response
       = Inr (new_response\<lparr>wroteHeader := True, status := 204\<rparr>)
   \<and> fst (Write http_response ''hello'' (Header_Set http_response ''Content-Type'' ''text/plain''
          (new_response\<lparr>wroteHeader := True, status := 204\<rparr>))) = (0, Some ErrBodyNotAllowed)
   \<and> String http_response (ex_attached ''x'') 204 ''hello''
       = Inr (None, (ex_attached ''x'')\<lparr>res := Some (new_response\<lparr>
            handlerHeader := [''Content-Type'' \<mapsto> [''text/plain'']], wroteHeader := True,
            status := 204\<rparr>)\<rparr>)
   \<and> Blob http_response (ex_attached ''x'') 204 ''text/plain'' ''hello''
       = Inr (None, (ex_attached ''x'')\<lparr>res := Some (new_response\<lparr>
            handlerHeader := [''Content-Type'' \<mapsto> [''text/plain'']], wroteHeader := True,
            status := 204\<rparr>)\<rparr>)
   \<and> Stream http_response (ex_attached ''x'') 204 ''text/plain'' list_Read [(''hello'', None)]
       = Some (Inr (Some ErrBodyNotAllowed, (ex_attached ''x'')\<lparr>res := Some (new_response\<lparr>
            handlerHeader := [''Content-Type'' \<mapsto> [''text/plain'']], wroteHeader := True,
            status := 204\<rparr>)\<rparr>))
   \<and> (\<exists>s'. WriteHeader http_response 204 new_response = Inr s')"
proof -
  let ?sent = "new_response\<lparr>wroteHeader := True, status := 204\<rparr>"
  let ?w = "new_response\<lparr>handlerHeader := [''Content-Type'' \<mapsto> [''text/plain'']],
      wroteHeader := True, status := 204\<rparr>"
  note defs = http_response_def write_chunk_def response_Write_def response_WriteHeader_def
    response_sendHeader_def response_Header_Set_def new_response_def bodyAllowedForStatus_def
  have hd: "WriteHeader http_response 204 new_response = Inr ?sent"
    by (simp add: defs)
  have wr: "Write http_response ''hello''
      (Header_Set http_response ''Content-Type'' ''text/plain'' ?sent)
        = ((0, Some ErrBodyNotAllowed), ?w)"
    by (simp add: defs)
  have rd: "reads_as list_Read [(''hello'', None)] [(''hello'', None)]"
    by (simp add: list_Read_def)
  have wc: "write_chunk http_response ''hello''
      (Header_Set http_response ''Content-Type'' ''text/plain'' ?sent)
        = (Some ErrBodyNotAllowed, ?w)"
    by (simp add: defs)
  have ok: "wroteHeader new_response \<or> (100 \<le> (204::int) \<and> (204::int) \<le> 999)"
    by simp
  from String_Blob_discard_write_error [where str = "''hello''" and contentType = "''text/plain''"
      and data = "''hello''" and Read = list_Read and rd = "[(''hello'', None)]" and er = None
      and e = ErrBodyNotAllowed and w' = ?w and s = new_response and code' = 204,
      OF ex_attached_res [of "''x''"] hd] hd wr rd wc ok
  show ?thesis by simp
qed

text \<open>
  Claim C10 as stated fails at the status code 0: on a response of \<^verbatim>\<open>net/http\<close> whose
  status is not yet written, \<^verbatim>\<open>WriteHeader(0)\<close> panics, so \<open>String\<close> and \<open>Blob\<close> do not
  return at all, and nothing is written.
\<close>

theorem String_Blob_invalid_code_counterexample:
  "res (ex_attached ''x'') = Some new_response
   \<and> String http_response (ex_attached ''x'') 0 ''hello'' = Inl (InvalidWriteHeaderCode 0)
   \<and> Blob http_response (ex_attached ''x'') 0 ''text/plain'' ''hello''
       = Inl (InvalidWriteHeaderCode 0)"
  by (simp add: ex_attached_res String_def Blob_def http_response_def response_WriteHeader_def
      new_response_def)

subsection \<open>A wrapper before Reset\<close>

text \<open>
  Claim C9, as amended. On a wrapper with neither request nor response, \<open>Header\<close>,
  \<open>Vars\<close>, \<open>Query\<close>, \<open>Form\<close>, \<open>BindVars\<close>, \<open>BindQuery\<close>, \<open>BindForm\<close>, \<open>Result\<close>,
  \<open>JSON\<close>, \<open>XML\<close>, \<open>String\<close>, \<open>Blob\<close> and \<open>Stream\<close> panic on the nil pointer.
  \<open>Returns\<close> with a non-nil error does not: it answers that error. \<open>Bind\<close> and
  \<open>Returns\<close> with a nil error read neither pointer themselves; they hand the nil
  pointers to the server's decoder and encoder and answer what these answer.
\<close>

theorem detached_operations:
  fixes c :: "('a, 'w) wrapper"
  defines "c0 \<equiv> c\<lparr>req := None, res := None\<rparr>"
  shows "Header c0 = Inl NilPointerDereference
       \<and> Vars L c0 = Inl NilPointerDereference
       \<and> Query L c0 = Inl NilPointerDereference
       \<and> Form L c0 = Inl NilPointerDereference
       \<and> BindVars L c0 v = Inl NilPointerDereference
       \<and> BindQuery L c0 v = Inl NilPointerDereference
       \<and> BindForm L c0 v = Inl NilPointerDereference
       \<and> Result W c0 code v = Inl NilPointerDereference
       \<and> JSON W L c0 code v = Inl NilPointerDereference
       \<and> XML W L c0 code v = Inl NilPointerDereference
       \<and> String W c0 code text = Inl NilPointerDereference
       \<and> Blob W c0 code contentType data = Inl NilPointerDereference
       \<and> Stream W c0 code contentType Read rd = Some (Inl NilPointerDereference)
       \<and> Returns c0 v (Some e) = Inr (Some e, c0)
       \<and> (route_srv c = Inr s \<longrightarrow>
            Bind c0 v = Inr (fst (dec s None v), c0\<lparr>req := snd (dec s None v)\<rparr>)
          \<and> Returns c0 v None
              = Inr (fst (enc s None None v),
                     c0\<lparr>res := fst (snd (enc s None None v)), req := snd (snd (enc s None None v))\<rparr>))"
  unfolding c0_def
  by (simp add: Header_def Vars_def Query_def Form_def BindVars_def BindQuery_def BindForm_def
      Result_def JSON_def XML_def String_def Blob_def Stream_def Returns_def Bind_def route_srv_def
      split: prod.split option.split)

theorem detached_operations_witness:
  "Header ex_detached = Inl NilPointerDereference
   \<and> Form ex_library ex_detached = Inl NilPointerDereference
   \<and> String http_response ex_detached 200 ''x'' = Inl NilPointerDereference
   \<and> Stream http_response ex_detached 200 ''text/csv'' list_Read [(''ab'', None)]
       = Some (Inl NilPointerDereference)
   \<and> Returns ex_detached ''v'' (Some Canceled) = Inr (Some Canceled, ex_detached)
   \<and> Bind ex_detached ''v'' = Inr ((None, ''v''), ex_detached)
   \<and> Returns ex_detached ''v'' None = Inr (Some (Failure ''no response writer''), ex_detached)"
proof -
  have srv: "route_srv ex_detached = Inr ex_Server"
    by (simp add: ex_detached_def route_srv_def)
  have codec: "dec ex_Server None ''v'' = ((None, ''v''), None)"
    "enc ex_Server None None ''v'' = (Some (Failure ''no response writer''), None, None)"
    by (simp_all add: ex_Server_def)
  from detached_operations [of ex_detached ex_library "''v''" http_response 200 "''x''"
      "''text/csv''" "''x''" list_Read "[(''ab'', None)]" Canceled ex_Server] srv
  show ?thesis by (simp add: codec ex_detached_def)
qed

text \<open>
  Claim C9 as stated fails: on the wrapper before \<open>Reset\<close>, with neither request nor
  response, \<open>Returns\<close> with a non-nil error answers the error, and \<open>Bind\<close> with a
  decoder that does not read the request answers as well.
\<close>

theorem detached_Returns_counterexample:
  "req ex_detached = None \<and> res ex_detached = None
   \<and> Returns ex_detached ''v'' (Some (Failure ''upstream''))
       = Inr (Some (Failure ''upstream''), ex_detached)
   \<and> Returns ex_detached ''v'' (Some (Failure ''upstream'')) \<noteq> Inl NilPointerDereference
   \<and> Bind ex_detached ''v'' \<noteq> Inl NilPointerDereference"
  by (simp add: Returns_def Bind_def route_srv_def ex_detached_def ex_Server_def)

subsection \<open>The Content-Type of the response\<close>

lemma write_chunk_state: "snd (write_chunk W b w) = snd (Write W b w)"
  by (simp add: write_chunk_def Let_def split: prod.split option.split)

lemma Encode_state:
  "snd (Encode W m v w) = (case m v of Inl e \<Rightarrow> w | Inr b \<Rightarrow> snd (Write W b w))"
  by (simp add: Encode_def split: sum.split prod.split)

lemma response_Write_sent:
  "wroteHeader s \<Longrightarrow>
   sent (snd (Write http_response data s)) = sent s
   \<and> wroteHeader (snd (Write http_response data s))"
  by (simp add: http_response_def response_Write_def sent_def Let_def)

lemma copyBuffer_sent:
  assumes "copyBuffer W Read s rd = Some y"
  shows "W = http_response \<longrightarrow> wroteHeader s \<longrightarrow> sent (fst (snd y)) = sent s"
  using assms
proof (induction W Read s rd y rule: copyBuffer.raw_induct [rotated 1, consumes 1])
  case (1 f W Read w r y)
  show ?case
  proof (intro impI)
    assume W: "W = http_response" and wrote: "wroteHeader w"
    obtain b er r' where rd: "Read r = ((b, er), r')"
      by (metis prod.collapse)
    let ?w' = "if 0 < length b then snd (write_chunk W b w) else w"
    from W wrote response_Write_sent [of w b]
    have keep: "sent ?w' = sent w" and wrote': "wroteHeader ?w'"
      by (simp_all add: write_chunk_state)
    show "sent (fst (snd y)) = sent w"
    proof (cases "if 0 < length b then fst (write_chunk W b w) else None")
      case (Some e)
      with "1.hyps" rd keep show ?thesis
        by (auto split: if_splits prod.splits)
    next
      case None
      note no_write_error = this
      show ?thesis
      proof (cases er)
        case (Some e)
        with "1.hyps" rd keep no_write_error show ?thesis
          by (auto split: if_splits prod.splits)
      next
        case None
        with "1.hyps" rd no_write_error have "f W Read ?w' r' = Some y"
          by (auto split: if_splits prod.splits)
        from "1.IH" [OF this] W wrote' keep show ?thesis
          by simp
      qed
    qed
  qed
qed

lemma flush_chunks_sent:
  "wroteHeader s \<Longrightarrow>
   sent (snd (flush_chunks http_response bs s)) = sent s
   \<and> wroteHeader (snd (flush_chunks http_response bs s))"
proof (induction bs arbitrary: s)
  case Nil
  then show ?case by simp
next
  case (Cons b bs)
  from response_Write_sent [OF Cons.prems, of b]
  have keep: "sent (snd (Write http_response b s)) = sent s"
    and wrote: "wroteHeader (snd (Write http_response b s))"
    by simp_all
  from Cons.IH [OF Cons.prems] Cons.IH [OF wrote] keep wrote show ?case
    by (auto simp: case_prod_unfold split: option.split)
qed

lemma xml_Encode_state:
  "snd (xml_Encode W L v w) = snd (flush_chunks W (fst (xml_Marshal L v)) w)"
  by (simp add: xml_Encode_def split: prod.split option.split)

lemma header_first_sent:
  assumes "\<not> wroteHeader s" and "\<not> (100 \<le> code \<and> code \<le> 199 \<and> code \<noteq> 101)"
    and "100 \<le> code" and "code \<le> 999"
  shows "WriteHeader http_response code s = Inr (response_sendHeader code s)"
    and "sent (Header_Set http_response ''Content-Type'' ct (response_sendHeader code s))
           = (code, handlerHeader s ''Content-Type'')"
    and "wroteHeader (Header_Set http_response ''Content-Type'' ct (response_sendHeader code s))"
  using assms
  by (auto simp: http_response_def response_Header_Set_def response_WriteHeader_def
      response_sendHeader_def sent_def)

text \<open>
  Claim C3 has each of \<open>JSON\<close>, \<open>XML\<close>, \<open>String\<close>, \<open>Blob\<close> and \<open>Stream\<close> put
  its \<^verbatim>\<open>Content-Type\<close> into effect on the response that is sent. The code writes the
  status first and sets the header afterwards. On the response writer of \<^verbatim>\<open>net/http\<close>,
  for a response whose status is not yet written and a final status code that the
  writer accepts, the response therefore goes out with the status given and with the
  \<^verbatim>\<open>Content-Type\<close> that the header map held before the call, not with the one the call
  sets.
\<close>

theorem Content_Type_set_after_status_sent:
  assumes "res c = Some s" and "\<not> wroteHeader s"
    and "\<not> (100 \<le> code \<and> code \<le> 199 \<and> code \<noteq> 101)"
    and "100 \<le> code" and "code \<le> 999"
  shows "map_option sent (response_of (JSON http_response L c code v))
           = Some (code, handlerHeader s ''Content-Type'')
       \<and> map_option sent (response_of (XML http_response L c code v))
           = Some (code, handlerHeader s ''Content-Type'')
       \<and> map_option sent (response_of (String http_response c code str))
           = Some (code, handlerHeader s ''Content-Type'')
       \<and> map_option sent (response_of (Blob http_response c code contentType data))
           = Some (code, handlerHeader s ''Content-Type'')
       \<and> (Stream http_response c code contentType Read rd = Some x \<longrightarrow>
            map_option sent (response_of x) = Some (code, handlerHeader s ''Content-Type''))"
proof (intro conjI impI)
  note first = header_first_sent [OF assms(2-5)]
  let ?set = "\<lambda>ct. Header_Set http_response ''Content-Type'' ct (response_sendHeader code s)"
  have enc: "sent (snd (Encode http_response m v w)) = sent w" if "wroteHeader w" for m w
    using response_Write_sent [OF that]
    by (simp add: Encode_state split: sum.split)
  show "map_option sent (response_of (JSON http_response L c code v))
           = Some (code, handlerHeader s ''Content-Type'')"
    using assms(1) first(1) first(2) [of "''application/json''"]
      enc [OF first(3) [of "''application/json''"], of "json_line L"]
    by (simp add: JSON_def response_of_def case_prod_unfold Let_def)
  show "map_option sent (response_of (XML http_response L c code v))
           = Some (code, handlerHeader s ''Content-Type'')"
    using assms(1) first(1) first(2) [of "''application/xml''"]
      flush_chunks_sent [OF first(3) [of "''application/xml''"], of "fst (xml_Marshal L v)"]
    by (simp add: XML_def response_of_def case_prod_unfold Let_def xml_Encode_state)
  have wr: "sent (snd (Write http_response d w)) = sent w" if "wroteHeader w" for d w
    using response_Write_sent [OF that] by simp
  show "map_option sent (response_of (String http_response c code str))
           = Some (code, handlerHeader s ''Content-Type'')"
    using assms(1) first(1) first(2) [of "''text/plain''"]
      wr [OF first(3) [of "''text/plain''"], of str]
    by (simp add: String_def response_of_def case_prod_unfold Let_def)
  show "map_option sent (response_of (Blob http_response c code contentType data))
           = Some (code, handlerHeader s ''Content-Type'')"
    using assms(1) first(1) first(2) [of contentType]
      wr [OF first(3) [of contentType], of data]
    by (simp add: Blob_def response_of_def case_prod_unfold Let_def)
  assume "Stream http_response c code contentType Read rd = Some x"
  with assms(1) first(1) obtain y where
    y: "copyBuffer http_response Read (?set contentType) rd = Some y"
    and x: "x = Inr (fst y, c\<lparr>res := Some (fst (snd y))\<rparr>)"
    by (auto simp: Stream_def split: option.splits)
  from copyBuffer_sent [OF y] first(2,3) [of contentType] x
  show "map_option sent (response_of x) = Some (code, handlerHeader s ''Content-Type'')"
    by (simp add: response_of_def)
qed

theorem Content_Type_set_after_status_sent_witness:
  "map_option sent (response_of (JSON http_response ex_library (ex_attached ''x'') 200 ''hello''))
     = Some (200, None)
   \<and> map_option sent (response_of (XML http_response ex_library (ex_attached ''x'') 200 ''hello''))
     = Some (200, None)
   \<and> map_option sent (response_of (String http_response (ex_attached ''x'') 200 ''hello''))
     = Some (200, None)
   \<and> map_option sent
       (response_of (Blob http_response (ex_attached ''x'') 200 ''text/csv'' ''hello''))
     = Some (200, None)
   \<and> Option.bind (Stream http_response (ex_attached ''x'') 200 ''text/csv'' list_Read
         [(''ab'', Some EOF)]) (\<lambda>x. map_option sent (response_of x))
     = Some (200, None)
   \<and> map_option (\<lambda>s. handlerHeader s ''Content-Type'')
       (response_of (JSON http_response ex_library (ex_attached ''x'') 200 ''hello''))
     = Some (Some [''application/json''])"
proof -
  have fresh: "\<not> wroteHeader new_response" "handlerHeader new_response ''Content-Type'' = None"
    by (simp_all add: new_response_def)
  have final: "\<not> (100 \<le> (200::int) \<and> (200::int) \<le> 199 \<and> (200::int) \<noteq> 101)"
    "100 \<le> (200::int)" "(200::int) \<le> 999"
    by simp_all
  have st: "Stream http_response (ex_attached ''x'') 200 ''text/csv'' list_Read [(''ab'', Some EOF)]
      = Some (Inr (None, (ex_attached ''x'')\<lparr>res := Some (new_response\<lparr>
          handlerHeader := [''Content-Type'' \<mapsto> [''text/csv'']], wroteHeader := True,
          status := 200, body := ''ab''\<rparr>)\<rparr>))"
    by (subst Stream_def, subst copyBuffer.simps)
      (simp add: ex_attached_res list_Read_def http_response_def write_chunk_def
        response_Write_def response_WriteHeader_def response_sendHeader_def
        response_Header_Set_def new_response_def bodyAllowedForStatus_def)
  have js: "map_option (\<lambda>s. handlerHeader s ''Content-Type'')
       (response_of (JSON http_response ex_library (ex_attached ''x'') 200 ''hello''))
     = Some (Some [''application/json''])"
    by (simp add: JSON_def response_of_def ex_attached_res Encode_def json_line_def
        ex_library_def http_response_def response_Write_def response_WriteHeader_def
        response_sendHeader_def response_Header_Set_def new_response_def
        bodyAllowedForStatus_def)
  from Content_Type_set_after_status_sent [where L = ex_library and v = "''hello''"
      and str = "''hello''" and contentType = "''text/csv''" and data = "''hello''"
      and Read = list_Read and rd = "[(''ab'', Some EOF)]"
      and x = "Inr (None, (ex_attached ''x'')\<lparr>res := Some (new_response\<lparr>
          handlerHeader := [''Content-Type'' \<mapsto> [''text/csv'']], wroteHeader := True,
          status := 200, body := ''ab''\<rparr>)\<rparr>)",
      OF ex_attached_res [of "''x''"] fresh(1) final]
    st js fresh(2)
  show ?thesis by simp
qed

end
